theory Spec2Isabelle
  imports Main "HOL-Library.Sublist"
begin

section \<open>The part of pylon and genicam that baslerwrappers.py calls\<close>

text \<open>
  The module \<^verbatim>\<open>baslerwrappers.py\<close> has no state of its own: every function is a short
  sequence of calls into the camera SDK (pypylon's \<^verbatim>\<open>pylon\<close> and \<^verbatim>\<open>genicam\<close>), of prints,
  and of one \<^verbatim>\<open>try\<close>/\<^verbatim>\<open>except\<close> or \<^verbatim>\<open>with\<close>. The SDK is not part of the repository, so it
  is a parameter of the model: a record of operations over an arbitrary device state
  \<open>'d\<close>. Each operation may change the device state and either returns a value or raises a
  \<^verbatim>\<open>genicam.GenericException\<close> (the base class of every exception of the SDK).

  What the model takes from the SDK's documentation rather than from the module: an SDK
  call returns an object of the documented type or raises an exception derived from
  \<^verbatim>\<open>genicam.GenericException\<close>; the two \<^verbatim>\<open>Release\<close> methods do not raise; leaving the
  \<^verbatim>\<open>with\<close> block of a grab result releases it and lets an exception of the block pass.
  Everything else, in particular every answer of the device, is left open.
\<close>

type_synonym handle = nat
  \<comment> \<open>the identity of an object handed out by the SDK (camera, grab result, image, ...)\<close>

type_synonym ndarray = "nat list"
  \<comment> \<open>the pixel array that \<^verbatim>\<open>GetArray()\<close> returns; the wrappers never look inside\<close>

datatype node = Width | Height | OffsetX | OffsetY

datatype grab_strategy = GrabStrategy_OneByOne | GrabStrategy_LatestImageOnly

datatype timeout_handling = TimeoutHandling_Return | TimeoutHandling_ThrowException

datatype pixel_type = PixelType_Mono8 | PixelType_BGR8packed

datatype bit_alignment = OutputBitAlignment_LsbAligned | OutputBitAlignment_MsbAligned

datatype image_file_format =
  ImageFileFormat_Bmp | ImageFileFormat_Tiff | ImageFileFormat_Jpeg | ImageFileFormat_Png

datatype GenericException = GenericException (GetDescription: string) (what: string)
  \<comment> \<open>an exception raised inside the SDK, with what its two accessors return\<close>

type_synonym ('d, 'a) sdk_op = "'d \<Rightarrow> (GenericException + 'a) \<times> 'd"

record 'd pylon =
  sdk_TlFactory_GetInstance :: "('d, handle) sdk_op"
  sdk_CreateFirstDevice :: "handle \<Rightarrow> ('d, handle) sdk_op"
  sdk_InstantCamera :: "handle \<Rightarrow> ('d, handle) sdk_op"
  sdk_GetDeviceInfo :: "handle \<Rightarrow> ('d, handle) sdk_op"
  sdk_GetModelName :: "handle \<Rightarrow> ('d, string) sdk_op"
  sdk_Open :: "handle \<Rightarrow> ('d, unit) sdk_op"
  sdk_GetNodeMap :: "handle \<Rightarrow> ('d, handle) sdk_op"
  sdk_FeaturePersistence_Load :: "string \<Rightarrow> handle \<Rightarrow> bool \<Rightarrow> ('d, unit) sdk_op"
  sdk_StartGrabbing :: "handle \<Rightarrow> grab_strategy \<Rightarrow> ('d, unit) sdk_op"
  sdk_StopGrabbing :: "handle \<Rightarrow> ('d, unit) sdk_op"
  sdk_Close :: "handle \<Rightarrow> ('d, unit) sdk_op"
  sdk_ImageFormatConverter :: "('d, handle) sdk_op"
  sdk_set_OutputPixelFormat :: "handle \<Rightarrow> pixel_type \<Rightarrow> ('d, unit) sdk_op"
  sdk_set_OutputBitAlignment :: "handle \<Rightarrow> bit_alignment \<Rightarrow> ('d, unit) sdk_op"
  sdk_RetrieveResult :: "handle \<Rightarrow> nat \<Rightarrow> timeout_handling \<Rightarrow> ('d, handle) sdk_op"
  sdk_GrabSucceeded :: "handle \<Rightarrow> ('d, bool) sdk_op"
  sdk_ErrorCode :: "handle \<Rightarrow> ('d, int) sdk_op"
  sdk_ErrorDescription :: "handle \<Rightarrow> ('d, string) sdk_op"
  sdk_Convert :: "handle \<Rightarrow> handle \<Rightarrow> ('d, handle) sdk_op"
  sdk_GetArray :: "handle \<Rightarrow> ('d, ndarray) sdk_op"
  sdk_Release :: "handle \<Rightarrow> 'd \<Rightarrow> 'd"
  sdk_IsWritable :: "handle \<Rightarrow> node \<Rightarrow> ('d, bool) sdk_op"
  sdk_GetMin :: "handle \<Rightarrow> node \<Rightarrow> ('d, int) sdk_op"
  sdk_GetMax :: "handle \<Rightarrow> node \<Rightarrow> ('d, int) sdk_op"
  sdk_SetValue :: "handle \<Rightarrow> node \<Rightarrow> int \<Rightarrow> ('d, unit) sdk_op"
  sdk_Value :: "handle \<Rightarrow> node \<Rightarrow> 'd \<Rightarrow> int"
  sdk_PylonImage :: "('d, handle) sdk_op"
  sdk_AttachGrabResultBuffer :: "handle \<Rightarrow> handle \<Rightarrow> ('d, unit) sdk_op"
  sdk_Save :: "handle \<Rightarrow> image_file_format \<Rightarrow> string \<Rightarrow> ('d, unit) sdk_op"
  sdk_PylonImage_Release :: "handle \<Rightarrow> 'd \<Rightarrow> 'd"

text \<open>
  Notes on the record.
  \<^item> \<open>sdk_Release\<close> (\<^verbatim>\<open>grabResult.Release()\<close>, also what leaving a
    \<^verbatim>\<open>with camera.RetrieveResult(...) as result:\<close> block calls) and \<open>sdk_PylonImage_Release\<close>
    (\<^verbatim>\<open>img.Release()\<close>) cannot raise: pylon documents both as not throwing.
  \<^item> \<open>sdk_IsWritable camera OffsetX\<close> is \<^verbatim>\<open>genicam.IsWritable(camera.OffsetX)\<close>,
    \<open>sdk_GetMin camera OffsetX\<close> is \<^verbatim>\<open>camera.OffsetX.Min\<close>, and \<open>sdk_SetValue camera OffsetX v\<close>
    is the assignment \<^verbatim>\<open>camera.OffsetX = v\<close>.
  \<^item> \<open>sdk_Value\<close> is the value a node currently holds. No wrapper reads it; it is there
    to state what a later query of the region of interest would see.
\<close>

subsection \<open>The log of SDK calls\<close>

datatype call =
    TlFactory_GetInstance
  | CreateFirstDevice handle
  | InstantCamera handle
  | GetDeviceInfo handle
  | GetModelName handle
  | Open handle
  | GetNodeMap handle
  | FeaturePersistence_Load string handle bool
  | StartGrabbing handle grab_strategy
  | StopGrabbing handle
  | Close handle
  | ImageFormatConverter
  | set_OutputPixelFormat handle pixel_type
  | set_OutputBitAlignment handle bit_alignment
  | RetrieveResult handle nat timeout_handling
  | GrabSucceeded handle
  | ErrorCode handle
  | ErrorDescription handle
  | Convert handle handle
  | GetArray handle
  | Release handle
  | IsWritable handle node
  | GetMin handle node
  | GetMax handle node
  | SetValue handle node int
  | PylonImage
  | AttachGrabResultBuffer handle handle
  | Save handle image_file_format string
  | PylonImage_Release handle

datatype retval = RNone | RBool bool | RInt int | RStr string | RObj handle | RArray ndarray

datatype event = Returned call retval | Raised call GenericException

fun call_of :: "event \<Rightarrow> call" where
  "call_of (Returned c r) = c"
| "call_of (Raised c e) = c"

datatype pyval = PStr string | PInt int
  \<comment> \<open>an argument of \<^verbatim>\<open>print\<close>\<close>

record 'd world =
  dev :: 'd
  log :: "('d \<times> event) list"
  stdout :: "pyval list list"

text \<open>
  \<open>log\<close> holds every SDK call made so far, in program order, each with the device state
  it was made in and with its outcome; \<open>stdout\<close> holds the argument list of every
  \<^verbatim>\<open>print\<close>.
\<close>

datatype exn =
    Genicam GenericException
  | RuntimeException string
  | UnboundLocalError string
  | IndexError string

text \<open>
  The exceptions that can leave a wrapper: one raised inside the SDK (\<open>Genicam\<close>), the
  \<^verbatim>\<open>genicam.RuntimeException(msg)\<close> that \<^verbatim>\<open>change_ROI\<close> and \<^verbatim>\<open>max_ROI\<close> raise themselves,
  Python's \<^verbatim>\<open>UnboundLocalError\<close> for a local variable read before any assignment, and
  \<^verbatim>\<open>IndexError\<close> for a tuple that is too short. \<open>RuntimeException\<close> is raised only
  inside \<^verbatim>\<open>except\<close> handlers, never inside a \<^verbatim>\<open>try\<close> body, so no handler of the module
  ever has to match it.
\<close>

type_synonym ('d, 'a) prog = "'d world \<Rightarrow> (exn + 'a) \<times> 'd world"

definition ret :: "'a \<Rightarrow> ('d, 'a) prog" where
  "ret a w = (Inr a, w)"

definition seq :: "('d, 'a) prog \<Rightarrow> ('a \<Rightarrow> ('d, 'b) prog) \<Rightarrow> ('d, 'b) prog" where
  "seq m f w = (case m w of (Inl e, w1) \<Rightarrow> (Inl e, w1) | (Inr a, w1) \<Rightarrow> f a w1)"

definition invoke :: "call \<Rightarrow> ('a \<Rightarrow> retval) \<Rightarrow> ('d, 'a) sdk_op \<Rightarrow> ('d, 'a) prog" where
  "invoke c tag f w =
     (case f (dev w) of
        (Inl e, d) \<Rightarrow> (Inl (Genicam e), w\<lparr>dev := d, log := log w @ [(dev w, Raised c e)]\<rparr>)
      | (Inr a, d) \<Rightarrow> (Inr a, w\<lparr>dev := d, log := log w @ [(dev w, Returned c (tag a))]\<rparr>))"

definition invoke_total :: "call \<Rightarrow> ('d \<Rightarrow> 'd) \<Rightarrow> 'd world \<Rightarrow> 'd world" where
  "invoke_total c f w = w\<lparr>dev := f (dev w), log := log w @ [(dev w, Returned c RNone)]\<rparr>"

definition print :: "pyval list \<Rightarrow> 'd world \<Rightarrow> 'd world" where
  "print args w = w\<lparr>stdout := stdout w @ [args]\<rparr>"

definition do :: "('d world \<Rightarrow> 'd world) \<Rightarrow> ('d, unit) prog" where
  "do f w = (Inr (), f w)"

definition index :: "'a list \<Rightarrow> nat \<Rightarrow> ('d, 'a) prog" where
  "index xs i w =
     (if i < length xs then (Inr (xs ! i), w) else (Inl (IndexError ''tuple index out of range''), w))"

text \<open>
  \<open>seq\<close> runs two steps one after the other and stops at the first exception; \<open>invoke\<close>
  is one SDK call that may raise, \<open>invoke_total\<close> one that cannot; \<open>do\<close> is a step that
  cannot fail; \<open>index xs i\<close> is Python's \<^verbatim>\<open>xs[i]\<close> for the constant indices 0 and 1.
\<close>

section \<open>The wrappers\<close>

subsection \<open>Device session and acquisition control\<close>

definition create_simple_camera :: "'d pylon \<Rightarrow> string \<Rightarrow> ('d, handle) prog" where
  "create_simple_camera sdk config_file_dir =
     seq (invoke TlFactory_GetInstance RObj (sdk_TlFactory_GetInstance sdk)) (\<lambda>factory.
     seq (invoke (CreateFirstDevice factory) RObj (sdk_CreateFirstDevice sdk factory)) (\<lambda>device.
     seq (invoke (InstantCamera device) RObj (sdk_InstantCamera sdk device)) (\<lambda>camera.
     seq (invoke (GetDeviceInfo camera) RObj (sdk_GetDeviceInfo sdk camera)) (\<lambda>info.
     seq (invoke (GetModelName info) RStr (sdk_GetModelName sdk info)) (\<lambda>name.
     seq (do (print [PStr ''Using device '', PStr name])) (\<lambda>_.
     seq (invoke (Open camera) (\<lambda>_. RNone) (sdk_Open sdk camera)) (\<lambda>_.
     seq (do (print [PStr (''Reading file back to camera'' @ [CHR 0x27] @ ''s node map...'')])) (\<lambda>_.
     seq (invoke (GetNodeMap camera) RObj (sdk_GetNodeMap sdk camera)) (\<lambda>nodemap.
     seq (invoke (FeaturePersistence_Load config_file_dir nodemap True) (\<lambda>_. RNone)
            (sdk_FeaturePersistence_Load sdk config_file_dir nodemap True)) (\<lambda>_.
     ret camera))))))))))"

definition change_feature_map :: "'d pylon \<Rightarrow> handle \<Rightarrow> string \<Rightarrow> ('d, handle) prog" where
  "change_feature_map sdk camera config_file_dir =
     seq (invoke (GetNodeMap camera) RObj (sdk_GetNodeMap sdk camera)) (\<lambda>nodemap.
     seq (invoke (FeaturePersistence_Load config_file_dir nodemap True) (\<lambda>_. RNone)
            (sdk_FeaturePersistence_Load sdk config_file_dir nodemap True)) (\<lambda>_.
     ret camera))"

definition start_imaging :: "'d pylon \<Rightarrow> handle \<Rightarrow> ('d, unit) prog" where
  "start_imaging sdk camera =
     invoke (StartGrabbing camera GrabStrategy_LatestImageOnly) (\<lambda>_. RNone)
       (sdk_StartGrabbing sdk camera GrabStrategy_LatestImageOnly)"

definition stop_imaging :: "'d pylon \<Rightarrow> handle \<Rightarrow> ('d, unit) prog" where
  "stop_imaging sdk camera = invoke (StopGrabbing camera) (\<lambda>_. RNone) (sdk_StopGrabbing sdk camera)"

definition close_camera :: "'d pylon \<Rightarrow> handle \<Rightarrow> ('d, unit) prog" where
  "close_camera sdk camera = invoke (Close camera) (\<lambda>_. RNone) (sdk_Close sdk camera)"

definition opencv_converter :: "'d pylon \<Rightarrow> ('d, handle) prog" where
  "opencv_converter sdk =
     seq (invoke ImageFormatConverter RObj (sdk_ImageFormatConverter sdk)) (\<lambda>converter.
     seq (invoke (set_OutputPixelFormat converter PixelType_BGR8packed) (\<lambda>_. RNone)
            (sdk_set_OutputPixelFormat sdk converter PixelType_BGR8packed)) (\<lambda>_.
     seq (invoke (set_OutputBitAlignment converter OutputBitAlignment_MsbAligned) (\<lambda>_. RNone)
            (sdk_set_OutputBitAlignment sdk converter OutputBitAlignment_MsbAligned)) (\<lambda>_.
     ret converter)))"

subsection \<open>take_one_opencv_image\<close>

text \<open>
  The body of the \<^verbatim>\<open>try\<close>. Its value is the local variable \<^verbatim>\<open>img\<close> as the body leaves it:
  \<open>Some\<close> the array when the branch that assigns it ran, \<open>None\<close> when \<^verbatim>\<open>img\<close> was never
  assigned.
\<close>

definition take_one_try :: "'d pylon \<Rightarrow> handle \<Rightarrow> handle \<Rightarrow> ('d, ndarray option) prog" where
  "take_one_try sdk camera converter =
     seq (invoke (RetrieveResult camera 5000 TimeoutHandling_ThrowException) RObj
            (sdk_RetrieveResult sdk camera 5000 TimeoutHandling_ThrowException)) (\<lambda>grabResult.
     seq (invoke (GrabSucceeded grabResult) RBool (sdk_GrabSucceeded sdk grabResult)) (\<lambda>ok.
     seq (if ok then
            seq (invoke (Convert converter grabResult) RObj (sdk_Convert sdk converter grabResult)) (\<lambda>image.
            seq (invoke (GetArray image) RArray (sdk_GetArray sdk image)) (\<lambda>img.
            ret (Some img)))
          else
            seq (invoke (ErrorCode grabResult) RInt (sdk_ErrorCode sdk grabResult)) (\<lambda>code.
            seq (invoke (ErrorDescription grabResult) RStr (sdk_ErrorDescription sdk grabResult)) (\<lambda>descr.
            seq (do (print [PStr ''Error: '', PInt code, PStr descr])) (\<lambda>_.
            ret None)))) (\<lambda>img.
     seq (do (invoke_total (Release grabResult) (sdk_Release sdk grabResult))) (\<lambda>_.
     ret img))))"

text \<open>
  The \<^verbatim>\<open>except genicam.GenericException\<close> handler prints twice and returns \<^verbatim>\<open>None\<close>.
  After the \<^verbatim>\<open>try\<close>, \<^verbatim>\<open>return img\<close> reads the local variable, which raises
  \<^verbatim>\<open>UnboundLocalError\<close> when no branch assigned it.
\<close>

definition take_one_opencv_image :: "'d pylon \<Rightarrow> handle \<Rightarrow> handle \<Rightarrow> ('d, ndarray option) prog" where
  "take_one_opencv_image sdk camera converter w =
     (case take_one_try sdk camera converter w of
        (Inl (Genicam e), w1) \<Rightarrow>
          (Inr None, print [PStr (GetDescription e)] (print [PStr ''An exception occurred.''] w1))
      | (Inl other, w1) \<Rightarrow> (Inl other, w1)
      | (Inr None, w1) \<Rightarrow> (Inl (UnboundLocalError ''img''), w1)
      | (Inr (Some img), w1) \<Rightarrow> (Inr (Some img), w1))"

subsection \<open>change_ROI and max_ROI\<close>

definition config_error_message :: "string \<Rightarrow> string" where
  "config_error_message msg =
     ''Could not apply configuration. GenICam::GenericException'' @ replicate 41 (CHR '' '')
       @ ''caught in OnOpened method msg='' @ msg"

text \<open>
  The string literal of the source runs over a line break behind a backslash, so the
  indentation of its second line is part of the message: 41 spaces in all.
\<close>

definition change_ROI_try :: "'d pylon \<Rightarrow> handle \<Rightarrow> int list \<Rightarrow> int list \<Rightarrow> ('d, unit) prog" where
  "change_ROI_try sdk camera dimensions offsets =
     seq (index dimensions 0) (\<lambda>width.
     seq (invoke (SetValue camera Width width) (\<lambda>_. RNone) (sdk_SetValue sdk camera Width width)) (\<lambda>_.
     seq (index dimensions 1) (\<lambda>height.
     seq (invoke (SetValue camera Height height) (\<lambda>_. RNone) (sdk_SetValue sdk camera Height height)) (\<lambda>_.
     seq (invoke (IsWritable camera OffsetX) RBool (sdk_IsWritable sdk camera OffsetX)) (\<lambda>wx.
     seq (if wx then
            seq (index offsets 0) (\<lambda>x.
            invoke (SetValue camera OffsetX x) (\<lambda>_. RNone) (sdk_SetValue sdk camera OffsetX x))
          else ret ()) (\<lambda>_.
     seq (invoke (IsWritable camera OffsetY) RBool (sdk_IsWritable sdk camera OffsetY)) (\<lambda>wy.
     if wy then
       seq (index offsets 1) (\<lambda>y.
       invoke (SetValue camera OffsetY y) (\<lambda>_. RNone) (sdk_SetValue sdk camera OffsetY y))
     else ret ())))))))"

definition change_ROI :: "'d pylon \<Rightarrow> handle \<Rightarrow> int list \<Rightarrow> int list \<Rightarrow> ('d, handle) prog" where
  "change_ROI sdk camera dimensions offsets w =
     (case change_ROI_try sdk camera dimensions offsets w of
        (Inl (Genicam e), w1) \<Rightarrow> (Inl (RuntimeException (config_error_message (what e))), w1)
      | (Inl other, w1) \<Rightarrow> (Inl other, w1)
      | (Inr _, w1) \<Rightarrow> (Inr camera, w1))"

definition max_ROI_try :: "'d pylon \<Rightarrow> handle \<Rightarrow> ('d, unit) prog" where
  "max_ROI_try sdk camera =
     seq (invoke (IsWritable camera OffsetX) RBool (sdk_IsWritable sdk camera OffsetX)) (\<lambda>wx.
     seq (if wx then
            seq (invoke (GetMin camera OffsetX) RInt (sdk_GetMin sdk camera OffsetX)) (\<lambda>x.
            invoke (SetValue camera OffsetX x) (\<lambda>_. RNone) (sdk_SetValue sdk camera OffsetX x))
          else ret ()) (\<lambda>_.
     seq (invoke (IsWritable camera OffsetY) RBool (sdk_IsWritable sdk camera OffsetY)) (\<lambda>wy.
     seq (if wy then
            seq (invoke (GetMin camera OffsetY) RInt (sdk_GetMin sdk camera OffsetY)) (\<lambda>y.
            invoke (SetValue camera OffsetY y) (\<lambda>_. RNone) (sdk_SetValue sdk camera OffsetY y))
          else ret ()) (\<lambda>_.
     seq (invoke (GetMax camera Width) RInt (sdk_GetMax sdk camera Width)) (\<lambda>width.
     seq (invoke (SetValue camera Width width) (\<lambda>_. RNone) (sdk_SetValue sdk camera Width width)) (\<lambda>_.
     seq (invoke (GetMax camera Height) RInt (sdk_GetMax sdk camera Height)) (\<lambda>height.
     invoke (SetValue camera Height height) (\<lambda>_. RNone) (sdk_SetValue sdk camera Height height))))))))"

definition max_ROI :: "'d pylon \<Rightarrow> handle \<Rightarrow> ('d, handle) prog" where
  "max_ROI sdk camera w =
     (case max_ROI_try sdk camera w of
        (Inl (Genicam e), w1) \<Rightarrow> (Inl (RuntimeException (config_error_message (what e))), w1)
      | (Inl other, w1) \<Rightarrow> (Inl other, w1)
      | (Inr _, w1) \<Rightarrow> (Inr camera, w1))"

subsection \<open>capture_and_save_png\<close>

text \<open>
  \<^verbatim>\<open>with camera.RetrieveResult(5000) as result:\<close> binds the grab result, runs the block and
  then, however the block ended, leaves the context, which for a pylon grab result is
  \<^verbatim>\<open>result.Release()\<close>; an exception of the block is raised again afterwards.
  \<^verbatim>\<open>RetrieveResult\<close> with one argument uses the default \<^verbatim>\<open>TimeoutHandling_ThrowException\<close>.
\<close>

definition capture_block :: "'d pylon \<Rightarrow> handle \<Rightarrow> handle \<Rightarrow> string \<Rightarrow> ('d, unit) prog" where
  "capture_block sdk img result filename =
     seq (invoke (AttachGrabResultBuffer img result) (\<lambda>_. RNone)
            (sdk_AttachGrabResultBuffer sdk img result)) (\<lambda>_.
     seq (invoke (Save img ImageFileFormat_Png filename) (\<lambda>_. RNone)
            (sdk_Save sdk img ImageFileFormat_Png filename)) (\<lambda>_.
     do (invoke_total (PylonImage_Release img) (sdk_PylonImage_Release sdk img))))"

definition capture_and_save_png :: "'d pylon \<Rightarrow> handle \<Rightarrow> string \<Rightarrow> ('d, unit) prog" where
  "capture_and_save_png sdk camera filename =
     seq (invoke PylonImage RObj (sdk_PylonImage sdk)) (\<lambda>img.
     seq (invoke (RetrieveResult camera 5000 TimeoutHandling_ThrowException) RObj
            (sdk_RetrieveResult sdk camera 5000 TimeoutHandling_ThrowException)) (\<lambda>result.
     (\<lambda>w. case capture_block sdk img result filename w of
             (r, w1) \<Rightarrow> (r, invoke_total (Release result) (sdk_Release sdk result) w1))))"

section \<open>A simulated camera\<close>

text \<open>
  One concrete SDK, used to run the wrappers on explicit inputs. Its device state says
  whether a camera is attached, whether the configuration file parses, whether a frame
  arrives before the timeout and whether it was grabbed successfully, whether the
  converter and the file writer succeed, and what the four nodes of the region of
  interest hold. As on a real sensor, the largest width is the sensor width minus the
  x-offset, and the largest x-offset is the sensor width minus the width; a write to a
  node that is not writable, or of a value outside the node's current range, is rejected.
\<close>

record sim =
  attached :: bool
  config_ok :: bool
  frame_arrives :: bool
  frame_ok :: bool
  convertible :: bool
  saveable :: bool
  value_of :: "node \<Rightarrow> int"
  writable :: "node \<Rightarrow> bool"
  sensor_width :: int
  sensor_height :: int

definition rejected :: "string \<Rightarrow> ('d, 'a) sdk_op" where
  "rejected descr d = (Inl (GenericException descr (descr @ '' : thrown by the simulated camera'')), d)"

fun sim_min :: "sim \<Rightarrow> node \<Rightarrow> int" where
  "sim_min d Width = 1"
| "sim_min d Height = 1"
| "sim_min d OffsetX = 0"
| "sim_min d OffsetY = 0"

fun sim_max :: "sim \<Rightarrow> node \<Rightarrow> int" where
  "sim_max d Width = sensor_width d - value_of d OffsetX"
| "sim_max d Height = sensor_height d - value_of d OffsetY"
| "sim_max d OffsetX = sensor_width d - value_of d Width"
| "sim_max d OffsetY = sensor_height d - value_of d Height"

definition sim_SetValue :: "node \<Rightarrow> int \<Rightarrow> (sim, unit) sdk_op" where
  "sim_SetValue n v d =
     (if \<not> writable d n then rejected ''Node is not writable.'' d
      else if v < sim_min d n \<or> sim_max d n < v then rejected ''Value is out of range.'' d
      else (Inr (), d\<lparr>value_of := (value_of d)(n := v)\<rparr>))"

definition simulator :: "sim pylon" where
  "simulator = \<lparr>
     sdk_TlFactory_GetInstance = (\<lambda>d. (Inr 0, d)),
     sdk_CreateFirstDevice = (\<lambda>factory d.
       if attached d then (Inr 1, d) else rejected ''No device is available.'' d),
     sdk_InstantCamera = (\<lambda>device d. (Inr 2, d)),
     sdk_GetDeviceInfo = (\<lambda>camera d. (Inr 3, d)),
     sdk_GetModelName = (\<lambda>info d. (Inr ''acA1920-40uc'', d)),
     sdk_Open = (\<lambda>camera d. (Inr (), d)),
     sdk_GetNodeMap = (\<lambda>camera d. (Inr 4, d)),
     sdk_FeaturePersistence_Load = (\<lambda>path nodemap verify d.
       if config_ok d then (Inr (), d) else rejected ''The feature file cannot be read.'' d),
     sdk_StartGrabbing = (\<lambda>camera strategy d. (Inr (), d)),
     sdk_StopGrabbing = (\<lambda>camera d. (Inr (), d)),
     sdk_Close = (\<lambda>camera d. (Inr (), d)),
     sdk_ImageFormatConverter = (\<lambda>d. (Inr 8, d)),
     sdk_set_OutputPixelFormat = (\<lambda>converter p d. (Inr (), d)),
     sdk_set_OutputBitAlignment = (\<lambda>converter a d. (Inr (), d)),
     sdk_RetrieveResult = (\<lambda>camera timeout handling d.
       if frame_arrives d then (Inr 5, d) else rejected ''Grab timed out.'' d),
     sdk_GrabSucceeded = (\<lambda>result d. (Inr (frame_ok d), d)),
     sdk_ErrorCode = (\<lambda>result d. (Inr 3774873620, d)),
     sdk_ErrorDescription = (\<lambda>result d. (Inr ''The buffer was incompletely grabbed.'', d)),
     sdk_Convert = (\<lambda>converter result d.
       if convertible d then (Inr 6, d) else rejected ''The pixel format cannot be converted.'' d),
     sdk_GetArray = (\<lambda>image d. (Inr [0, 0, 0], d)),
     sdk_Release = (\<lambda>result d. d),
     sdk_IsWritable = (\<lambda>camera n d. (Inr (writable d n), d)),
     sdk_GetMin = (\<lambda>camera n d. (Inr (sim_min d n), d)),
     sdk_GetMax = (\<lambda>camera n d. (Inr (sim_max d n), d)),
     sdk_SetValue = (\<lambda>camera. sim_SetValue),
     sdk_Value = (\<lambda>camera n d. value_of d n),
     sdk_PylonImage = (\<lambda>d. (Inr 7, d)),
     sdk_AttachGrabResultBuffer = (\<lambda>img result d. (Inr (), d)),
     sdk_Save = (\<lambda>img format path d.
       if saveable d then (Inr (), d) else rejected ''The image cannot be saved.'' d),
     sdk_PylonImage_Release = (\<lambda>img d. d)
   \<rparr>"

definition sim0 :: sim where
  "sim0 = \<lparr>
     attached = True, config_ok = True, frame_arrives = True, frame_ok = True,
     convertible = True, saveable = True,
     value_of = (\<lambda>n. case n of Width \<Rightarrow> 640 | Height \<Rightarrow> 480 | OffsetX \<Rightarrow> 8 | OffsetY \<Rightarrow> 4),
     writable = (\<lambda>n. True),
     sensor_width = 1920, sensor_height = 1200
   \<rparr>"

definition boot :: "'d \<Rightarrow> 'd world" where
  "boot d = \<lparr>dev = d, log = [], stdout = []\<rparr>"

text \<open>
  \<open>sim0\<close> is a healthy camera with a region of 640 by 480 at offset (8, 4) on a sensor
  of 1920 by 1200; \<open>boot d\<close> is a run that starts in device state \<open>d\<close> with an empty
  log and nothing printed.
\<close>

section \<open>Reading a run\<close>

definition new_log :: "'d world \<Rightarrow> 'd world \<Rightarrow> ('d \<times> event) list" where
  "new_log w w' = drop (length (log w)) (log w')"

definition new_events :: "'d world \<Rightarrow> 'd world \<Rightarrow> event list" where
  "new_events w w' = map snd (new_log w w')"

definition releases :: "handle \<Rightarrow> event list \<Rightarrow> nat" where
  "releases r evs = length (filter (\<lambda>ev. call_of ev = Release r) evs)"

definition consecutive :: "'a list \<Rightarrow> ('a \<times> 'a) list" where
  "consecutive xs = zip xs (tl xs)"

fun assigned :: "event \<Rightarrow> node option" where
  "assigned (Returned (SetValue c n v) r) = Some n"
| "assigned (Raised (SetValue c n v) e) = Some n"
| "assigned ev = None"

definition assigns_offset :: "event \<Rightarrow> bool" where
  "assigns_offset ev \<longleftrightarrow> assigned ev = Some OffsetX \<or> assigned ev = Some OffsetY"

definition assigns_size :: "event \<Rightarrow> bool" where
  "assigns_size ev \<longleftrightarrow> assigned ev = Some Width \<or> assigned ev = Some Height"

text \<open>
  \<open>new_log w w'\<close> are the SDK calls made between the worlds \<open>w\<close> and \<open>w'\<close>, each with
  the device state it was made in, and \<open>new_events w w'\<close> the calls alone;
  \<open>releases r evs\<close> counts how often \<open>evs\<close> releases the grab result \<open>r\<close>;
  \<open>consecutive xs\<close> pairs every element of \<open>xs\<close> but the last with its successor;
  \<open>assigned ev\<close> is the node that the event assigns to (or tries to), if any.
\<close>

subsection \<open>What the region-of-interest functions are expected to do\<close>

definition change_ROI_plan ::
    "handle \<Rightarrow> int \<Rightarrow> int \<Rightarrow> int \<Rightarrow> int \<Rightarrow> bool \<Rightarrow> bool \<Rightarrow> event list" where
  "change_ROI_plan camera width height x y wx wy =
     [Returned (SetValue camera Width width) RNone,
      Returned (SetValue camera Height height) RNone,
      Returned (IsWritable camera OffsetX) (RBool wx)]
     @ (if wx then [Returned (SetValue camera OffsetX x) RNone] else [])
     @ [Returned (IsWritable camera OffsetY) (RBool wy)]
     @ (if wy then [Returned (SetValue camera OffsetY y) RNone] else [])"

fun offset_to_min :: "handle \<Rightarrow> node \<Rightarrow> int option \<Rightarrow> event list" where
  "offset_to_min camera n None = [Returned (IsWritable camera n) (RBool False)]"
| "offset_to_min camera n (Some v) =
     [Returned (IsWritable camera n) (RBool True),
      Returned (GetMin camera n) (RInt v),
      Returned (SetValue camera n v) RNone]"

definition max_ROI_plan :: "handle \<Rightarrow> int option \<Rightarrow> int option \<Rightarrow> int \<Rightarrow> int \<Rightarrow> event list" where
  "max_ROI_plan camera xo yo width height =
     offset_to_min camera OffsetX xo @ offset_to_min camera OffsetY yo
     @ [Returned (GetMax camera Width) (RInt width),
        Returned (SetValue camera Width width) RNone,
        Returned (GetMax camera Height) (RInt height),
        Returned (SetValue camera Height height) RNone]"

text \<open>
  \<open>change_ROI_plan\<close> is the complete sequence of calls of a \<^verbatim>\<open>setROI\<close> that ends
  normally, given what the device answered about the writability of the two offsets
  (\<open>wx\<close>, \<open>wy\<close>). \<open>max_ROI_plan\<close> is the same for \<^verbatim>\<open>maximize\<close>: \<open>xo = Some x\<close> says that
  the x-offset was reported writable, that its reported minimum was \<open>x\<close> and that \<open>x\<close>
  was assigned; \<open>xo = None\<close> says that it was reported not writable and was not assigned.
\<close>

definition roi_maximized :: "'d pylon \<Rightarrow> handle \<Rightarrow> 'd \<Rightarrow> bool" where
  "roi_maximized sdk camera d \<longleftrightarrow>
     fst (sdk_GetMin sdk camera OffsetX d) = Inr (sdk_Value sdk camera OffsetX d) \<and>
     fst (sdk_GetMin sdk camera OffsetY d) = Inr (sdk_Value sdk camera OffsetY d) \<and>
     fst (sdk_GetMax sdk camera Width d) = Inr (sdk_Value sdk camera Width d) \<and>
     fst (sdk_GetMax sdk camera Height d) = Inr (sdk_Value sdk camera Height d)"

definition fits_sensor :: "'d pylon \<Rightarrow> handle \<Rightarrow> int \<Rightarrow> int \<Rightarrow> 'd \<Rightarrow> node \<Rightarrow> int \<Rightarrow> bool" where
  "fits_sensor sdk camera sw sh d n v \<longleftrightarrow>
     (case n of
        OffsetX \<Rightarrow> v + sdk_Value sdk camera Width d \<le> sw
      | OffsetY \<Rightarrow> v + sdk_Value sdk camera Height d \<le> sh
      | _ \<Rightarrow> True)"

text \<open>
  \<open>roi_maximized sdk camera d\<close>: in device state \<open>d\<close> both offsets hold the minimum and
  width and height hold the maximum that the device reports for them.
  \<open>fits_sensor sdk camera sw sh d n v\<close>: the value \<open>v\<close> for the offset \<open>n\<close>, together with
  the width (or height) that the device holds in state \<open>d\<close>, stays within a sensor of
  \<open>sw\<close> by \<open>sh\<close> pixels.
\<close>

section \<open>Symbolic execution\<close>

text \<open>
  Every wrapper is a straight line of SDK calls with at most two branches, so a
  theorem about all its runs is proved by following each path once. The rules below
  bring a program into the form \<open>seq (invoke \<dots>) (\<lambda>a. \<dots>)\<close> and split a run of that form
  into the run in which the call raises and the runs in which it returns.
\<close>

lemma seq_ret: "seq (ret a) k = k a"
  by (rule ext) (simp add: seq_def ret_def)

lemma seq_do: "seq (do f) k w = k () (f w)"
  by (simp add: seq_def do_def)

lemma seq_if: "seq (if b then m1 else m2) k = (if b then seq m1 k else seq m2 k)"
  by simp

lemma seq_assoc: "seq (seq m f) k = seq m (\<lambda>a. seq (f a) k)"
  by (rule ext) (simp add: seq_def split: prod.splits sum.splits)

lemma ret_iff: "(ret a w = rw) \<longleftrightarrow> rw = (Inr a, w)"
  by (auto simp add: ret_def)

lemma do_iff: "(do f w = rw) \<longleftrightarrow> rw = (Inr (), f w)"
  by (auto simp add: do_def)

lemma seq_invokeE [consumes 1, case_names raised returned]:
  assumes "seq (invoke c tag f) k w = (r, w')"
  obtains e d where "f (dev w) = (Inl e, d)" "r = Inl (Genicam e)"
      "w' = w\<lparr>dev := d, log := log w @ [(dev w, Raised c e)]\<rparr>"
  | a d where "f (dev w) = (Inr a, d)"
      "k a (w\<lparr>dev := d, log := log w @ [(dev w, Returned c (tag a))]\<rparr>) = (r, w')"
  using assms by (auto simp add: seq_def invoke_def split: prod.splits sum.splits)

lemma invokeE [consumes 1, case_names raised returned]:
  assumes "invoke c tag f w = (r, w')"
  obtains e d where "f (dev w) = (Inl e, d)" "r = Inl (Genicam e)"
      "w' = w\<lparr>dev := d, log := log w @ [(dev w, Raised c e)]\<rparr>"
  | a d where "f (dev w) = (Inr a, d)" "r = Inr a"
      "w' = w\<lparr>dev := d, log := log w @ [(dev w, Returned c (tag a))]\<rparr>"
  using assms by (auto simp add: invoke_def split: prod.splits sum.splits)

lemma seq_indexE [consumes 1, case_names out_of_range in_range]:
  assumes "seq (index xs i) k w = (r, w')"
  obtains "\<not> i < length xs" "r = Inl (IndexError ''tuple index out of range'')" "w' = w"
  | "i < length xs" "k (xs ! i) w = (r, w')"
  using assms by (auto simp add: seq_def index_def split: if_splits)

lemmas norm = seq_assoc seq_if seq_ret seq_do ret_iff do_iff

lemmas run_defs = seq_def ret_def invoke_def invoke_total_def do_def print_def index_def
  new_events_def new_log_def

text \<open>The \<^verbatim>\<open>try\<close>/\<^verbatim>\<open>except\<close> of each wrapper, as a relation between the two results.\<close>

lemma take_one_opencv_image_iff:
  "take_one_opencv_image sdk camera converter w = (res, w') \<longleftrightarrow>
     (\<exists>r w1. take_one_try sdk camera converter w = (r, w1) \<and>
        (case r of
           Inl (Genicam e) \<Rightarrow>
             res = Inr None \<and>
             w' = w1\<lparr>stdout := stdout w1 @ [[PStr ''An exception occurred.''], [PStr (GetDescription e)]]\<rparr>
         | Inl other \<Rightarrow> res = Inl other \<and> w' = w1
         | Inr None \<Rightarrow> res = Inl (UnboundLocalError ''img'') \<and> w' = w1
         | Inr (Some img) \<Rightarrow> res = Inr (Some img) \<and> w' = w1))"
  by (auto simp add: take_one_opencv_image_def print_def split: prod.splits sum.splits exn.splits option.splits)

lemma change_ROI_iff:
  "change_ROI sdk camera dimensions offsets w = (res, w') \<longleftrightarrow>
     (\<exists>r. change_ROI_try sdk camera dimensions offsets w = (r, w') \<and>
        res = (case r of
                 Inl (Genicam e) \<Rightarrow> Inl (RuntimeException (config_error_message (what e)))
               | Inl other \<Rightarrow> Inl other
               | Inr _ \<Rightarrow> Inr camera))"
  by (auto simp add: change_ROI_def split: prod.splits sum.splits exn.splits)

lemma max_ROI_iff:
  "max_ROI sdk camera w = (res, w') \<longleftrightarrow>
     (\<exists>r. max_ROI_try sdk camera w = (r, w') \<and>
        res = (case r of
                 Inl (Genicam e) \<Rightarrow> Inl (RuntimeException (config_error_message (what e)))
               | Inl other \<Rightarrow> Inl other
               | Inr _ \<Rightarrow> Inr camera))"
  by (auto simp add: max_ROI_def split: prod.splits sum.splits exn.splits)

text \<open>Leaving a \<^verbatim>\<open>with\<close> block: the block's result is kept and the exit step \<open>f\<close> runs.\<close>

lemma with_iff:
  "(case m of (r, w1) \<Rightarrow> (r, f w1)) = (res, w') \<longleftrightarrow> (\<exists>w1. m = (res, w1) \<and> w' = f w1)"
  by (auto split: prod.splits)

text \<open>Two facts about lists and the values of the simulated camera \<open>sim0\<close>.\<close>

lemma in_set_hd_or_consecutive:
  "x \<in> set xs \<Longrightarrow> x = hd xs \<or> (\<exists>y. (y, x) \<in> set (consecutive xs))"
proof (induction xs)
  case Nil
  then show ?case by simp
next
  case (Cons a xs)
  show ?case
  proof (cases "x = a")
    case True
    then show ?thesis by simp
  next
    case False
    with Cons.prems have mem: "x \<in> set xs" by simp
    then obtain b ys where xs: "xs = b # ys" by (cases xs) auto
    from Cons.IH [OF mem] show ?thesis
      by (auto simp add: consecutive_def xs)
  qed
qed

lemma consecutive_left: "(y, x) \<in> set (consecutive xs) \<Longrightarrow> y \<in> set xs"
  by (auto simp add: consecutive_def dest: set_zip_leftD)

lemma sim0_simps:
  "attached sim0" "config_ok sim0" "frame_arrives sim0" "frame_ok sim0" "convertible sim0"
  "saveable sim0" "writable sim0 n" "sensor_width sim0 = 1920" "sensor_height sim0 = 1200"
  "value_of sim0 Width = 640" "value_of sim0 Height = 480" "value_of sim0 OffsetX = 8"
  "value_of sim0 OffsetY = 4"
  by (simp_all add: sim0_def)

section \<open>Single-frame capture: take_one_opencv_image\<close>

text \<open>
  The path on which everything works: the frame is retrieved, reports success, is
  converted, its array is read, the grab result is released, and the array is returned.
\<close>

lemma take_one_success:
  assumes "sdk_RetrieveResult sdk camera 5000 TimeoutHandling_ThrowException (dev w) = (Inr r, d1)"
    and "sdk_GrabSucceeded sdk r d1 = (Inr True, d2)"
    and "sdk_Convert sdk converter r d2 = (Inr converted, d3)"
    and "sdk_GetArray sdk converted d3 = (Inr img, d4)"
  shows "take_one_opencv_image sdk camera converter w =
           (Inr (Some img),
            w\<lparr>dev := sdk_Release sdk r d4,
              log := log w @
                [(dev w, Returned (RetrieveResult camera 5000 TimeoutHandling_ThrowException) (RObj r)),
                 (d1, Returned (GrabSucceeded r) (RBool True)),
                 (d2, Returned (Convert converter r) (RObj converted)),
                 (d3, Returned (GetArray converted) (RArray img)),
                 (d4, Returned (Release r) RNone)]\<rparr>)"
  using assms by (simp add: take_one_opencv_image_def take_one_try_def run_defs)

text \<open>
  How often the retrieved grab result is released, for every run: once when no SDK
  call of the run raised, and not at all when one did.
\<close>

lemma take_one_releases:
  assumes "take_one_opencv_image sdk camera converter w = (res, w')"
    and "Returned (RetrieveResult camera 5000 TimeoutHandling_ThrowException) (RObj r)
           \<in> set (new_events w w')"
  shows "releases r (new_events w w') = (if \<exists>c e. Raised c e \<in> set (new_events w w') then 0 else 1)"
proof -
  define Q where "Q = (\<lambda>evs.
     \<forall>r. Returned (RetrieveResult camera 5000 TimeoutHandling_ThrowException) (RObj r) \<in> set evs \<longrightarrow>
       releases r evs = (if \<exists>c e. Raised c e \<in> set evs then 0 else 1))"
  have "Q (map snd (new_log w w'))"
    using assms(1)
    apply (auto simp add: take_one_opencv_image_iff take_one_try_def norm new_log_def
        elim!: seq_invokeE invokeE split: if_splits)
    apply (simp_all add: Q_def invoke_total_def print_def releases_def)
    done
  with assms(2) show ?thesis
    unfolding Q_def new_events_def by blast
qed



text \<open>
  Claim C2 says that on a grab result that reports failure the function reports the
  error code and description and returns no image, with no exception escaping. The code
  prints the two values and releases the grab result, but then reaches \<^verbatim>\<open>return img\<close>
  with \<^verbatim>\<open>img\<close> never assigned: Python raises \<^verbatim>\<open>UnboundLocalError\<close>, which is not a
  \<^verbatim>\<open>genicam.GenericException\<close> and is raised outside the \<^verbatim>\<open>try\<close> anyway, so it reaches
  the caller. The theorem runs that path for any SDK. (The successful half of the claim
  is \<open>take_one_success\<close> above.)
\<close>

theorem take_one_failed_grab_raises:
  assumes "sdk_RetrieveResult sdk camera 5000 TimeoutHandling_ThrowException (dev w) = (Inr r, d1)"
    and "sdk_GrabSucceeded sdk r d1 = (Inr False, d2)"
    and "sdk_ErrorCode sdk r d2 = (Inr code, d3)"
    and "sdk_ErrorDescription sdk r d3 = (Inr descr, d4)"
  shows "take_one_opencv_image sdk camera converter w =
           (Inl (UnboundLocalError ''img''),
            w\<lparr>dev := sdk_Release sdk r d4,
              log := log w @
                [(dev w, Returned (RetrieveResult camera 5000 TimeoutHandling_ThrowException) (RObj r)),
                 (d1, Returned (GrabSucceeded r) (RBool False)),
                 (d2, Returned (ErrorCode r) (RInt code)),
                 (d3, Returned (ErrorDescription r) (RStr descr)),
                 (d4, Returned (Release r) RNone)],
              stdout := stdout w @ [[PStr ''Error: '', PInt code, PStr descr]]\<rparr>)"
  using assms by (simp add: take_one_opencv_image_def take_one_try_def run_defs)

theorem take_one_failed_grab_raises_witness:
  "fst (take_one_opencv_image simulator 2 8 (boot (sim0\<lparr>frame_ok := False\<rparr>))) = Inl (UnboundLocalError ''img'') \<and>
   stdout (snd (take_one_opencv_image simulator 2 8 (boot (sim0\<lparr>frame_ok := False\<rparr>)))) =
     [[PStr ''Error: '', PInt 3774873620, PStr ''The buffer was incompletely grabbed.'']]"
proof -
  let ?d = "sim0\<lparr>frame_ok := False\<rparr>"
  have retrieve: "sdk_RetrieveResult simulator 2 5000 TimeoutHandling_ThrowException (dev (boot ?d)) = (Inr 5, ?d)"
    by (simp add: simulator_def boot_def sim0_def)
  have succeeded: "sdk_GrabSucceeded simulator 5 ?d = (Inr False, ?d)"
    by (simp add: simulator_def sim0_def)
  have code: "sdk_ErrorCode simulator 5 ?d = (Inr 3774873620, ?d)"
    by (simp add: simulator_def)
  have descr: "sdk_ErrorDescription simulator 5 ?d = (Inr ''The buffer was incompletely grabbed.'', ?d)"
    by (simp add: simulator_def)
  show ?thesis
    using take_one_failed_grab_raises [OF retrieve succeeded code descr, of 8]
    by (simp add: boot_def)
qed



section \<open>Region of interest: change_ROI and max_ROI\<close>

text \<open>
  Claim C3 says that \<^verbatim>\<open>max_ROI\<close> always leaves both offsets at their reported minimum
  and width and height at their reported maximum, whatever the region was before. That
  fails where the device reports an offset as not writable: the code guards each offset
  assignment with \<^verbatim>\<open>genicam.IsWritable\<close> and skips it. On the simulated camera with the
  x-offset locked at 8 (reported minimum 0), \<^verbatim>\<open>max_ROI\<close> returns normally and the
  x-offset is still 8.
\<close>

theorem max_ROI_locked_offset_counterexample:
  "fst (max_ROI simulator 2 (boot (sim0\<lparr>writable := (\<lambda>n. n \<noteq> OffsetX)\<rparr>))) = Inr 2 \<and>
   \<not> roi_maximized simulator 2
       (dev (snd (max_ROI simulator 2 (boot (sim0\<lparr>writable := (\<lambda>n. n \<noteq> OffsetX)\<rparr>)))))"
  by (simp add: max_ROI_def max_ROI_try_def run_defs simulator_def sim0_def boot_def
      sim_SetValue_def roi_maximized_def)

text \<open>
  Claim C3 as amended: when \<^verbatim>\<open>max_ROI\<close> returns normally it returns the camera it was
  given, and its SDK calls are exactly \<open>max_ROI_plan\<close>: each offset is asked for its
  writability; an offset reported writable is asked for its minimum and assigned that
  value, an offset reported not writable is not assigned; then the width is asked for its
  maximum and assigned it, then the height.
\<close>

theorem max_ROI_assigns_limits:
  assumes "max_ROI sdk camera w = (Inr c, w')"
  shows "c = camera \<and>
         (\<exists>xo yo width height. new_events w w' = max_ROI_plan camera xo yo width height)"
proof -
  define Q where "Q = (\<lambda>(res :: exn + handle) evs.
     res = Inr c \<longrightarrow> c = camera \<and>
      ((\<exists>x y width height. evs = max_ROI_plan camera (Some x) (Some y) width height)
    \<or> (\<exists>x width height. evs = max_ROI_plan camera (Some x) None width height)
    \<or> (\<exists>y width height. evs = max_ROI_plan camera None (Some y) width height)
    \<or> (\<exists>width height. evs = max_ROI_plan camera None None width height)))"
  have "Q (Inr c) (map snd (new_log w w'))"
    using assms
    apply (auto simp add: max_ROI_iff max_ROI_try_def norm new_log_def
        elim!: seq_invokeE invokeE split: if_splits)
    apply (simp_all add: Q_def max_ROI_plan_def)
    done
  then show ?thesis
    unfolding Q_def new_events_def by blast
qed

theorem max_ROI_assigns_limits_witness:
  "max_ROI simulator 2 (boot (sim0\<lparr>writable := (\<lambda>n. n \<noteq> OffsetX)\<rparr>)) =
     (Inr 2, snd (max_ROI simulator 2 (boot (sim0\<lparr>writable := (\<lambda>n. n \<noteq> OffsetX)\<rparr>)))) \<and>
   new_events (boot (sim0\<lparr>writable := (\<lambda>n. n \<noteq> OffsetX)\<rparr>))
       (snd (max_ROI simulator 2 (boot (sim0\<lparr>writable := (\<lambda>n. n \<noteq> OffsetX)\<rparr>)))) =
     max_ROI_plan 2 None (Some 0) 1912 1200"
proof -
  let ?w = "boot (sim0\<lparr>writable := (\<lambda>n. n \<noteq> OffsetX)\<rparr>)"
  have run: "max_ROI simulator 2 ?w = (Inr 2, snd (max_ROI simulator 2 ?w))"
    by (simp add: max_ROI_def max_ROI_try_def run_defs simulator_def sim0_def boot_def sim_SetValue_def)
  have events: "new_events ?w (snd (max_ROI simulator 2 ?w)) = max_ROI_plan 2 None (Some 0) 1912 1200"
    by (simp add: max_ROI_def max_ROI_try_def run_defs simulator_def sim0_def boot_def sim_SetValue_def
        max_ROI_plan_def)
  from max_ROI_assigns_limits [OF run] run events show ?thesis
    by simp
qed

text \<open>
  Claim C4: \<^verbatim>\<open>change_ROI\<close> called with \<^verbatim>\<open>(width, height)\<close> and \<^verbatim>\<open>(x, y)\<close> assigns width and
  height without asking, assigns an offset only after the device reported it writable,
  and assigns width and height before the offsets. Every run follows
  \<open>change_ROI_plan\<close>: the calls made are an initial segment of the plan, every call but
  the last returned what the plan says (the last may have raised), and a run that ends
  normally is the whole plan. The first call is always the assignment of the width; an
  offset that was reported not writable is not assigned in the run.
\<close>

theorem change_ROI_follows_plan:
  assumes "change_ROI sdk camera [width, height] [x, y] w = (res, w')"
  shows "(\<exists>wx wy.
            prefix (butlast (new_events w w')) (change_ROI_plan camera width height x y wx wy) \<and>
            prefix (map call_of (new_events w w'))
              (map call_of (change_ROI_plan camera width height x y wx wy)) \<and>
            (res = Inr camera \<longrightarrow> new_events w w' = change_ROI_plan camera width height x y wx wy)) \<and>
         new_events w w' \<noteq> [] \<and>
         call_of (hd (new_events w w')) = SetValue camera Width width \<and>
         (Returned (IsWritable camera OffsetX) (RBool False) \<in> set (new_events w w') \<longrightarrow>
            (\<forall>ev\<in>set (new_events w w'). assigned ev \<noteq> Some OffsetX)) \<and>
         (Returned (IsWritable camera OffsetY) (RBool False) \<in> set (new_events w w') \<longrightarrow>
            (\<forall>ev\<in>set (new_events w w'). assigned ev \<noteq> Some OffsetY)) \<and>
         (\<forall>c. res = Inr c \<longrightarrow> c = camera)"
proof -
  define Q where "Q = (\<lambda>(res :: exn + handle) evs.
     (let wx = (Returned (IsWritable camera OffsetX) (RBool True) \<in> set evs);
          wy = (Returned (IsWritable camera OffsetY) (RBool True) \<in> set evs)
      in prefix (butlast evs) (change_ROI_plan camera width height x y wx wy) \<and>
         prefix (map call_of evs) (map call_of (change_ROI_plan camera width height x y wx wy)) \<and>
         (res = Inr camera \<longrightarrow> evs = change_ROI_plan camera width height x y wx wy)) \<and>
     evs \<noteq> [] \<and>
     call_of (hd evs) = SetValue camera Width width \<and>
     (Returned (IsWritable camera OffsetX) (RBool False) \<in> set evs \<longrightarrow>
        (\<forall>ev\<in>set evs. assigned ev \<noteq> Some OffsetX)) \<and>
     (Returned (IsWritable camera OffsetY) (RBool False) \<in> set evs \<longrightarrow>
        (\<forall>ev\<in>set evs. assigned ev \<noteq> Some OffsetY)) \<and>
     (\<forall>c. res = Inr c \<longrightarrow> c = camera))"
  have "Q res (map snd (new_log w w'))"
    using assms
    apply (auto simp add: change_ROI_iff change_ROI_try_def norm new_log_def
        elim!: seq_invokeE invokeE seq_indexE split: if_splits)
    apply (simp_all add: Q_def change_ROI_plan_def)
    done
  then show ?thesis
    unfolding Q_def new_events_def Let_def by blast
qed

theorem change_ROI_follows_plan_witness:
  "fst (change_ROI simulator 2 [100, 200] [16, 32] (boot (sim0\<lparr>writable := (\<lambda>n. n \<noteq> OffsetX)\<rparr>))) = Inr 2 \<and>
   new_events (boot (sim0\<lparr>writable := (\<lambda>n. n \<noteq> OffsetX)\<rparr>))
       (snd (change_ROI simulator 2 [100, 200] [16, 32] (boot (sim0\<lparr>writable := (\<lambda>n. n \<noteq> OffsetX)\<rparr>)))) =
     change_ROI_plan 2 100 200 16 32 False True"
proof -
  let ?w = "boot (sim0\<lparr>writable := (\<lambda>n. n \<noteq> OffsetX)\<rparr>)"
  have result: "fst (change_ROI simulator 2 [100, 200] [16, 32] ?w) = Inr 2"
    by (simp add: change_ROI_def change_ROI_try_def run_defs simulator_def sim0_def boot_def sim_SetValue_def)
  have locked: "Returned (IsWritable 2 OffsetX) (RBool False)
      \<in> set (new_events ?w (snd (change_ROI simulator 2 [100, 200] [16, 32] ?w)))"
    by (simp add: change_ROI_def change_ROI_try_def run_defs simulator_def sim0_def boot_def sim_SetValue_def)
  have free: "Returned (SetValue 2 OffsetY 32) RNone
      \<in> set (new_events ?w (snd (change_ROI simulator 2 [100, 200] [16, 32] ?w)))"
    by (simp add: change_ROI_def change_ROI_try_def run_defs simulator_def sim0_def boot_def sim_SetValue_def)
  have run: "change_ROI simulator 2 [100, 200] [16, 32] ?w =
      (fst (change_ROI simulator 2 [100, 200] [16, 32] ?w),
       snd (change_ROI simulator 2 [100, 200] [16, 32] ?w))"
    by simp
  from change_ROI_follows_plan [OF run]
  obtain wx wy where
    plan: "new_events ?w (snd (change_ROI simulator 2 [100, 200] [16, 32] ?w)) =
             change_ROI_plan 2 100 200 16 32 wx wy"
    using result by auto
  from plan locked have "\<not> wx"
    by (auto simp add: change_ROI_plan_def split: if_splits)
  moreover from plan free have "wy"
    by (auto simp add: change_ROI_plan_def split: if_splits)
  ultimately show ?thesis
    using plan result by simp
qed

text \<open>
  Claim C6: in every run of \<^verbatim>\<open>max_ROI\<close> the offsets are assigned before width and
  height, and no offset is assigned a value that exceeds the sensor together with the
  current width or height. The run splits into a first part without any assignment to
  width or height and a second part without any assignment to an offset. Every
  assignment directly follows the query of the limit it assigns: an offset gets the
  minimum the device has just reported, in the very device state that the report left
  (nothing happens in between), and likewise width and height get the reported maximum.
  Whether a reported minimum fits the sensor is up to the device; if every minimum it
  reports during the run fits the sensor together with the width or height it holds at
  that moment, then so does every offset that \<^verbatim>\<open>max_ROI\<close> assigns, at the moment of the
  assignment (\<open>sw\<close> and \<open>sh\<close> are the sensor's width and height).
\<close>

theorem max_ROI_offsets_before_sizes:
  fixes sdk :: "'d pylon"
  assumes "max_ROI sdk camera w = (res, w')"
  shows "(\<exists>pre post. new_events w w' = pre @ post \<and>
            (\<forall>ev\<in>set pre. \<not> assigns_size ev) \<and> (\<forall>ev\<in>set post. \<not> assigns_offset ev)) \<and>
         (\<forall>((d0, e0), (d, e))\<in>set (consecutive (new_log w w')). \<forall>n v.
            call_of e = SetValue camera n v \<longrightarrow>
              (n = OffsetX \<or> n = OffsetY \<longrightarrow>
                 e0 = Returned (GetMin camera n) (RInt v) \<and> sdk_GetMin sdk camera n d0 = (Inr v, d)) \<and>
              (n = Width \<or> n = Height \<longrightarrow>
                 e0 = Returned (GetMax camera n) (RInt v) \<and> sdk_GetMax sdk camera n d0 = (Inr v, d))) \<and>
         ((\<forall>(d, e)\<in>set (new_log w w'). \<forall>n v.
             e = Returned (GetMin camera n) (RInt v) \<longrightarrow>
               fits_sensor sdk camera sw sh (snd (sdk_GetMin sdk camera n d)) n v) \<longrightarrow>
          (\<forall>(d, e)\<in>set (new_log w w'). \<forall>n v.
             call_of e = SetValue camera n v \<longrightarrow> fits_sensor sdk camera sw sh d n v))"
proof -
  define Q where "Q = (\<lambda>(res :: exn + handle) (L :: ('d \<times> event) list).
     (\<forall>ev\<in>set (dropWhile (\<lambda>ev. \<not> assigns_size ev) (map snd L)). \<not> assigns_offset ev) \<and>
     L \<noteq> [] \<and> call_of (snd (hd L)) = IsWritable camera OffsetX \<and>
     (\<forall>((d0, e0), (d, e))\<in>set (consecutive L). \<forall>n v.
        call_of e = SetValue camera n v \<longrightarrow>
          (n = OffsetX \<or> n = OffsetY \<longrightarrow>
             e0 = Returned (GetMin camera n) (RInt v) \<and> sdk_GetMin sdk camera n d0 = (Inr v, d)) \<and>
          (n = Width \<or> n = Height \<longrightarrow>
             e0 = Returned (GetMax camera n) (RInt v) \<and> sdk_GetMax sdk camera n d0 = (Inr v, d))))"
  let ?L = "new_log w w'"
  have "Q res ?L"
    using assms
    apply (auto simp add: max_ROI_iff max_ROI_try_def norm new_log_def
        elim!: seq_invokeE invokeE split: if_splits)
    apply (simp_all add: Q_def consecutive_def assigns_size_def assigns_offset_def)
    done
  then have order: "\<forall>ev\<in>set (dropWhile (\<lambda>ev. \<not> assigns_size ev) (new_events w w')). \<not> assigns_offset ev"
    and first: "?L \<noteq> []" "call_of (snd (hd ?L)) = IsWritable camera OffsetX"
    and in_place: "\<forall>((d0, e0), (d, e))\<in>set (consecutive ?L). \<forall>n v.
        call_of e = SetValue camera n v \<longrightarrow>
          (n = OffsetX \<or> n = OffsetY \<longrightarrow>
             e0 = Returned (GetMin camera n) (RInt v) \<and> sdk_GetMin sdk camera n d0 = (Inr v, d)) \<and>
          (n = Width \<or> n = Height \<longrightarrow>
             e0 = Returned (GetMax camera n) (RInt v) \<and> sdk_GetMax sdk camera n d0 = (Inr v, d))"
    by (simp_all add: Q_def new_events_def)
  have split_run: "\<exists>pre post. new_events w w' = pre @ post \<and>
            (\<forall>ev\<in>set pre. \<not> assigns_size ev) \<and> (\<forall>ev\<in>set post. \<not> assigns_offset ev)"
  proof (intro exI conjI)
    show "new_events w w' = takeWhile (\<lambda>ev. \<not> assigns_size ev) (new_events w w')
        @ dropWhile (\<lambda>ev. \<not> assigns_size ev) (new_events w w')"
      by simp
    show "\<forall>ev\<in>set (takeWhile (\<lambda>ev. \<not> assigns_size ev) (new_events w w')). \<not> assigns_size ev"
      by (auto dest: set_takeWhileD)
    show "\<forall>ev\<in>set (dropWhile (\<lambda>ev. \<not> assigns_size ev) (new_events w w')). \<not> assigns_offset ev"
      by (rule order)
  qed
  have fit: "\<forall>(d, e)\<in>set ?L. \<forall>n v. call_of e = SetValue camera n v \<longrightarrow> fits_sensor sdk camera sw sh d n v"
    if reported: "\<forall>(d, e)\<in>set ?L. \<forall>n v.
             e = Returned (GetMin camera n) (RInt v) \<longrightarrow>
               fits_sensor sdk camera sw sh (snd (sdk_GetMin sdk camera n d)) n v"
  proof (clarify)
    fix d e n v
    assume entry: "(d, e) \<in> set ?L" and assign: "call_of e = SetValue camera n v"
    show "fits_sensor sdk camera sw sh d n v"
    proof (cases "n = OffsetX \<or> n = OffsetY")
      case False
      then show ?thesis
        by (cases n) (simp_all add: fits_sensor_def)
    next
      case True
      have "(d, e) \<noteq> hd ?L"
      proof
        assume "(d, e) = hd ?L"
        then have "snd (hd ?L) = e"
          by (metis snd_conv)
        with first assign show False
          by simp
      qed
      with in_set_hd_or_consecutive [OF entry]
      obtain d0 e0 where pair: "((d0, e0), (d, e)) \<in> set (consecutive ?L)"
        by auto
      with in_place assign True
      have e0: "e0 = Returned (GetMin camera n) (RInt v)"
        and state: "sdk_GetMin sdk camera n d0 = (Inr v, d)"
        by auto
      from consecutive_left [OF pair] have "(d0, e0) \<in> set ?L" .
      with reported e0 have "fits_sensor sdk camera sw sh (snd (sdk_GetMin sdk camera n d0)) n v"
        by auto
      with state show ?thesis
        by simp
    qed
  qed
  from split_run in_place fit show ?thesis
    by blast
qed


theorem max_ROI_offsets_before_sizes_witness:
  "(sim0, Returned (SetValue 2 OffsetX 0) RNone)
     \<in> set (new_log (boot sim0) (snd (max_ROI simulator 2 (boot sim0)))) \<and>
   fits_sensor simulator 2 1920 1200 sim0 OffsetX 0 \<and>
   (sim0\<lparr>value_of := (value_of sim0)(OffsetX := 0)\<rparr>, Returned (SetValue 2 OffsetY 0) RNone)
     \<in> set (new_log (boot sim0) (snd (max_ROI simulator 2 (boot sim0)))) \<and>
   fits_sensor simulator 2 1920 1200 (sim0\<lparr>value_of := (value_of sim0)(OffsetX := 0)\<rparr>) OffsetY 0"
proof -
  let ?run = "max_ROI simulator 2 (boot sim0)"
  let ?L = "new_log (boot sim0) (snd ?run)"
  have collapse: "?run = (fst ?run, snd ?run)"
    by simp
  have entries: "?L =
      [(sim0, Returned (IsWritable 2 OffsetX) (RBool True)),
       (sim0, Returned (GetMin 2 OffsetX) (RInt 0)),
       (sim0, Returned (SetValue 2 OffsetX 0) RNone),
       (sim0\<lparr>value_of := (value_of sim0)(OffsetX := 0)\<rparr>, Returned (IsWritable 2 OffsetY) (RBool True)),
       (sim0\<lparr>value_of := (value_of sim0)(OffsetX := 0)\<rparr>, Returned (GetMin 2 OffsetY) (RInt 0)),
       (sim0\<lparr>value_of := (value_of sim0)(OffsetX := 0)\<rparr>, Returned (SetValue 2 OffsetY 0) RNone),
       (sim0\<lparr>value_of := (value_of sim0)(OffsetX := 0, OffsetY := 0)\<rparr>,
          Returned (GetMax 2 Width) (RInt 1920)),
       (sim0\<lparr>value_of := (value_of sim0)(OffsetX := 0, OffsetY := 0)\<rparr>,
          Returned (SetValue 2 Width 1920) RNone),
       (sim0\<lparr>value_of := (value_of sim0)(OffsetX := 0, OffsetY := 0, Width := 1920)\<rparr>,
          Returned (GetMax 2 Height) (RInt 1200)),
       (sim0\<lparr>value_of := (value_of sim0)(OffsetX := 0, OffsetY := 0, Width := 1920)\<rparr>,
          Returned (SetValue 2 Height 1200) RNone)]"
    by (simp add: max_ROI_def max_ROI_try_def run_defs simulator_def boot_def sim_SetValue_def
        sim0_simps)
  have reported: "\<forall>(d, e)\<in>set ?L. \<forall>n v.
      e = Returned (GetMin 2 n) (RInt v) \<longrightarrow>
        fits_sensor simulator 2 1920 1200 (snd (sdk_GetMin simulator 2 n d)) n v"
    by (simp add: entries) (simp add: simulator_def fits_sensor_def sim0_simps)
  from max_ROI_offsets_before_sizes [OF collapse, of 1920 1200] reported
  have fit: "\<forall>(d, e)\<in>set ?L. \<forall>n v.
      call_of e = SetValue 2 n v \<longrightarrow> fits_sensor simulator 2 1920 1200 d n v"
    by blast
  have x: "(sim0, Returned (SetValue 2 OffsetX 0) RNone) \<in> set ?L"
    and y: "(sim0\<lparr>value_of := (value_of sim0)(OffsetX := 0)\<rparr>, Returned (SetValue 2 OffsetY 0) RNone)
      \<in> set ?L"
    by (simp_all add: entries)
  from fit x have "fits_sensor simulator 2 1920 1200 sim0 OffsetX 0"
    by fastforce
  moreover from fit y
  have "fits_sensor simulator 2 1920 1200 (sim0\<lparr>value_of := (value_of sim0)(OffsetX := 0)\<rparr>) OffsetY 0"
    by fastforce
  ultimately show ?thesis
    using x y by simp
qed



section \<open>Device session: create_simple_camera\<close>

text \<open>
  Claim C8: \<^verbatim>\<open>create_simple_camera\<close> asks the transport layer factory for the first
  device, wraps it in a camera object, opens the camera, and only then loads the
  configuration file into the camera's node map; it fails with the device's exception
  when no device is present or the file cannot be applied. A run that returns a camera
  made exactly the eight calls below, in this order. There is no handler, so an
  exception of any call (\<^verbatim>\<open>CreateFirstDevice\<close> without a device,
  \<^verbatim>\<open>FeaturePersistence.Load\<close> on a bad file) is the result of the function, and a run
  without an exception returns a camera. Whenever \<^verbatim>\<open>FeaturePersistence.Load\<close> is called
  at all, it is called with the given path and \<^verbatim>\<open>True\<close>, on the node map of the camera,
  as the last call, after the seven others returned, \<^verbatim>\<open>Open\<close> among them.
\<close>

theorem create_simple_camera_order:
  assumes "create_simple_camera sdk config_file_dir w = (res, w')"
  shows "(\<forall>camera. res = Inr camera \<longrightarrow>
            (\<exists>factory device info name nodemap.
               new_events w w' =
                 [Returned TlFactory_GetInstance (RObj factory),
                  Returned (CreateFirstDevice factory) (RObj device),
                  Returned (InstantCamera device) (RObj camera),
                  Returned (GetDeviceInfo camera) (RObj info),
                  Returned (GetModelName info) (RStr name),
                  Returned (Open camera) RNone,
                  Returned (GetNodeMap camera) (RObj nodemap),
                  Returned (FeaturePersistence_Load config_file_dir nodemap True) RNone])) \<and>
         (\<forall>c e. Raised c e \<in> set (new_events w w') \<longrightarrow> res = Inl (Genicam e)) \<and>
         ((\<forall>ev\<in>set (new_events w w'). \<exists>c r. ev = Returned c r) \<longrightarrow> (\<exists>camera. res = Inr camera)) \<and>
         (\<forall>ev\<in>set (new_events w w'). \<forall>path nodemap verify.
            call_of ev = FeaturePersistence_Load path nodemap verify \<longrightarrow>
              path = config_file_dir \<and> verify \<and>
              (\<exists>factory device camera info name.
                 new_events w w' =
                   [Returned TlFactory_GetInstance (RObj factory),
                    Returned (CreateFirstDevice factory) (RObj device),
                    Returned (InstantCamera device) (RObj camera),
                    Returned (GetDeviceInfo camera) (RObj info),
                    Returned (GetModelName info) (RStr name),
                    Returned (Open camera) RNone,
                    Returned (GetNodeMap camera) (RObj nodemap),
                    ev]))"
proof -
  define Q where "Q = (\<lambda>(res :: exn + handle) evs.
         (\<forall>camera. res = Inr camera \<longrightarrow>
            (\<exists>factory device info name nodemap.
               evs =
                 [Returned TlFactory_GetInstance (RObj factory),
                  Returned (CreateFirstDevice factory) (RObj device),
                  Returned (InstantCamera device) (RObj camera),
                  Returned (GetDeviceInfo camera) (RObj info),
                  Returned (GetModelName info) (RStr name),
                  Returned (Open camera) RNone,
                  Returned (GetNodeMap camera) (RObj nodemap),
                  Returned (FeaturePersistence_Load config_file_dir nodemap True) RNone])) \<and>
         (\<forall>c e. Raised c e \<in> set evs \<longrightarrow> res = Inl (Genicam e)) \<and>
         ((\<forall>ev\<in>set evs. \<exists>c r. ev = Returned c r) \<longrightarrow> (\<exists>camera. res = Inr camera)) \<and>
         (\<forall>ev\<in>set evs. \<forall>path nodemap verify.
            call_of ev = FeaturePersistence_Load path nodemap verify \<longrightarrow>
              path = config_file_dir \<and> verify \<and>
              (\<exists>factory device camera info name.
                 evs =
                   [Returned TlFactory_GetInstance (RObj factory),
                    Returned (CreateFirstDevice factory) (RObj device),
                    Returned (InstantCamera device) (RObj camera),
                    Returned (GetDeviceInfo camera) (RObj info),
                    Returned (GetModelName info) (RStr name),
                    Returned (Open camera) RNone,
                    Returned (GetNodeMap camera) (RObj nodemap),
                    ev])))"
  have "Q res (map snd (new_log w w'))"
    using assms
    apply (auto simp add: create_simple_camera_def norm new_log_def print_def
        elim!: seq_invokeE invokeE split: if_splits)
    apply (simp_all add: Q_def)
    done
  then show ?thesis
    unfolding Q_def new_events_def .
qed

theorem create_simple_camera_order_witness:
  "fst (create_simple_camera simulator ''camera.pfs'' (boot sim0)) = Inr 2 \<and>
   new_events (boot sim0) (snd (create_simple_camera simulator ''camera.pfs'' (boot sim0))) =
     [Returned TlFactory_GetInstance (RObj 0),
      Returned (CreateFirstDevice 0) (RObj 1),
      Returned (InstantCamera 1) (RObj 2),
      Returned (GetDeviceInfo 2) (RObj 3),
      Returned (GetModelName 3) (RStr ''acA1920-40uc''),
      Returned (Open 2) RNone,
      Returned (GetNodeMap 2) (RObj 4),
      Returned (FeaturePersistence_Load ''camera.pfs'' 4 True) RNone] \<and>
   fst (create_simple_camera simulator ''camera.pfs'' (boot (sim0\<lparr>attached := False\<rparr>))) =
     Inl (Genicam (GenericException ''No device is available.''
       ''No device is available. : thrown by the simulated camera'')) \<and>
   fst (create_simple_camera simulator ''camera.pfs'' (boot (sim0\<lparr>config_ok := False\<rparr>))) =
     Inl (Genicam (GenericException ''The feature file cannot be read.''
       ''The feature file cannot be read. : thrown by the simulated camera''))"
proof -
  let ?absent = "boot (sim0\<lparr>attached := False\<rparr>)"
  let ?broken = "boot (sim0\<lparr>config_ok := False\<rparr>)"
  let ?e1 = "GenericException ''No device is available.''
       ''No device is available. : thrown by the simulated camera''"
  let ?e2 = "GenericException ''The feature file cannot be read.''
       ''The feature file cannot be read. : thrown by the simulated camera''"
  have good: "\<forall>ev\<in>set (new_events (boot sim0) (snd (create_simple_camera simulator ''camera.pfs'' (boot sim0)))).
      \<exists>c r. ev = Returned c r"
    by (simp add: create_simple_camera_def run_defs simulator_def sim0_def boot_def)
  have load: "Returned (FeaturePersistence_Load ''camera.pfs'' 4 True) RNone
      \<in> set (new_events (boot sim0) (snd (create_simple_camera simulator ''camera.pfs'' (boot sim0))))"
    by (simp add: create_simple_camera_def run_defs simulator_def sim0_def boot_def)
  have absent: "Raised (CreateFirstDevice 0) ?e1
      \<in> set (new_events ?absent (snd (create_simple_camera simulator ''camera.pfs'' ?absent)))"
    by (simp add: create_simple_camera_def run_defs simulator_def sim0_def boot_def rejected_def)
  have broken: "Raised (FeaturePersistence_Load ''camera.pfs'' 4 True) ?e2
      \<in> set (new_events ?broken (snd (create_simple_camera simulator ''camera.pfs'' ?broken)))"
    by (simp add: create_simple_camera_def run_defs simulator_def sim0_def boot_def rejected_def)
  have collapse: "create_simple_camera simulator ''camera.pfs'' (boot sim0) =
      (fst (create_simple_camera simulator ''camera.pfs'' (boot sim0)),
       snd (create_simple_camera simulator ''camera.pfs'' (boot sim0)))"
    by simp
  note run = create_simple_camera_order [OF collapse]
  from run good obtain camera where
    camera: "fst (create_simple_camera simulator ''camera.pfs'' (boot sim0)) = Inr camera"
    by blast
  with run obtain factory device info name nodemap where
    events: "new_events (boot sim0) (snd (create_simple_camera simulator ''camera.pfs'' (boot sim0))) =
                 [Returned TlFactory_GetInstance (RObj factory),
                  Returned (CreateFirstDevice factory) (RObj device),
                  Returned (InstantCamera device) (RObj camera),
                  Returned (GetDeviceInfo camera) (RObj info),
                  Returned (GetModelName info) (RStr name),
                  Returned (Open camera) RNone,
                  Returned (GetNodeMap camera) (RObj nodemap),
                  Returned (FeaturePersistence_Load ''camera.pfs'' nodemap True) RNone]"
    by blast
  have first: "fst (create_simple_camera simulator ''camera.pfs'' (boot sim0)) = Inr 2 \<and>
      new_events (boot sim0) (snd (create_simple_camera simulator ''camera.pfs'' (boot sim0))) =
     [Returned TlFactory_GetInstance (RObj 0),
      Returned (CreateFirstDevice 0) (RObj 1),
      Returned (InstantCamera 1) (RObj 2),
      Returned (GetDeviceInfo 2) (RObj 3),
      Returned (GetModelName 3) (RStr ''acA1920-40uc''),
      Returned (Open 2) RNone,
      Returned (GetNodeMap 2) (RObj 4),
      Returned (FeaturePersistence_Load ''camera.pfs'' 4 True) RNone]"
    by (simp add: create_simple_camera_def run_defs simulator_def sim0_def boot_def)
  from create_simple_camera_order
         [of simulator "''camera.pfs''" ?absent
             "fst (create_simple_camera simulator ''camera.pfs'' ?absent)"
             "snd (create_simple_camera simulator ''camera.pfs'' ?absent)"] absent
  have second: "fst (create_simple_camera simulator ''camera.pfs'' ?absent) = Inl (Genicam ?e1)"
    by simp
  from create_simple_camera_order
         [of simulator "''camera.pfs''" ?broken
             "fst (create_simple_camera simulator ''camera.pfs'' ?broken)"
             "snd (create_simple_camera simulator ''camera.pfs'' ?broken)"] broken
  have third: "fst (create_simple_camera simulator ''camera.pfs'' ?broken) = Inl (Genicam ?e2)"
    by simp
  from first second third show ?thesis
    by simp
qed

section \<open>Single-frame capture to a file: capture_and_save_png\<close>




text \<open>
  Claim C10: \<^verbatim>\<open>capture_and_save_png\<close> never asks the grab result whether the grab
  succeeded and has no exception handler. No run contains a \<^verbatim>\<open>GrabSucceeded\<close> call.
  Once the retrieval has returned a grab result, whatever its status, the next call
  attaches it to the image, and if that returns the next call saves the image as PNG at
  the given path. An exception of any SDK call of the run, the retrieval and the saving
  among them, is the result of the function.
\<close>

theorem capture_and_save_png_unchecked:
  assumes "capture_and_save_png sdk camera filename w = (res, w')"
  shows "(\<forall>ev\<in>set (new_events w w'). \<forall>result. call_of ev \<noteq> GrabSucceeded result) \<and>
         (\<forall>result. Returned (RetrieveResult camera 5000 TimeoutHandling_ThrowException) (RObj result)
              \<in> set (new_events w w') \<longrightarrow>
            (\<exists>img rest.
               new_events w w' =
                 Returned PylonImage (RObj img)
                 # Returned (RetrieveResult camera 5000 TimeoutHandling_ThrowException) (RObj result)
                 # rest \<and>
               rest \<noteq> [] \<and>
               call_of (hd rest) = AttachGrabResultBuffer img result \<and>
               (hd rest = Returned (AttachGrabResultBuffer img result) RNone \<longrightarrow>
                  call_of (hd (tl rest)) = Save img ImageFileFormat_Png filename))) \<and>
         (\<forall>c e. Raised c e \<in> set (new_events w w') \<longrightarrow> res = Inl (Genicam e))"
proof -
  define Q where "Q = (\<lambda>(res :: exn + unit) evs.
         (\<forall>ev\<in>set evs. \<forall>result. call_of ev \<noteq> GrabSucceeded result) \<and>
         (\<forall>result. Returned (RetrieveResult camera 5000 TimeoutHandling_ThrowException) (RObj result)
              \<in> set evs \<longrightarrow>
            (\<exists>img rest.
               evs =
                 Returned PylonImage (RObj img)
                 # Returned (RetrieveResult camera 5000 TimeoutHandling_ThrowException) (RObj result)
                 # rest \<and>
               rest \<noteq> [] \<and>
               call_of (hd rest) = AttachGrabResultBuffer img result \<and>
               (hd rest = Returned (AttachGrabResultBuffer img result) RNone \<longrightarrow>
                  call_of (hd (tl rest)) = Save img ImageFileFormat_Png filename))) \<and>
         (\<forall>c e. Raised c e \<in> set evs \<longrightarrow> res = Inl (Genicam e)))"
  have "Q res (map snd (new_log w w'))"
    using assms
    apply (auto simp add: capture_and_save_png_def capture_block_def with_iff norm new_log_def
        elim!: seq_invokeE invokeE split: if_splits)
    apply (simp_all add: Q_def invoke_total_def)
    done
  then show ?thesis
    unfolding Q_def new_events_def .
qed

theorem capture_and_save_png_unchecked_witness:
  "fst (capture_and_save_png simulator 2 ''frame.png'' (boot (sim0\<lparr>frame_ok := False\<rparr>))) = Inr () \<and>
   Returned (Save 7 ImageFileFormat_Png ''frame.png'') RNone
     \<in> set (new_events (boot (sim0\<lparr>frame_ok := False\<rparr>))
         (snd (capture_and_save_png simulator 2 ''frame.png'' (boot (sim0\<lparr>frame_ok := False\<rparr>))))) \<and>
   fst (capture_and_save_png simulator 2 ''frame.png'' (boot (sim0\<lparr>frame_arrives := False\<rparr>))) =
     Inl (Genicam (GenericException ''Grab timed out.''
       ''Grab timed out. : thrown by the simulated camera''))"
proof -
  let ?failed = "capture_and_save_png simulator 2 ''frame.png'' (boot (sim0\<lparr>frame_ok := False\<rparr>))"
  let ?late = "capture_and_save_png simulator 2 ''frame.png'' (boot (sim0\<lparr>frame_arrives := False\<rparr>))"
  have failed: "fst ?failed = Inr () \<and>
      Returned (Save 7 ImageFileFormat_Png ''frame.png'') RNone
        \<in> set (new_events (boot (sim0\<lparr>frame_ok := False\<rparr>)) (snd ?failed))"
    by (simp add: capture_and_save_png_def capture_block_def run_defs simulator_def sim0_def boot_def)
  have collapse: "?late = (fst ?late, snd ?late)"
    by simp
  have raised: "Raised (RetrieveResult 2 5000 TimeoutHandling_ThrowException)
      (GenericException ''Grab timed out.'' ''Grab timed out. : thrown by the simulated camera'')
        \<in> set (new_events (boot (sim0\<lparr>frame_arrives := False\<rparr>)) (snd ?late))"
    by (simp add: capture_and_save_png_def capture_block_def run_defs simulator_def sim0_def boot_def
        rejected_def)
  from capture_and_save_png_unchecked [OF collapse] raised failed show ?thesis
    by blast
qed

end
